theory Spec2Isabelle
  imports Complex_Main "HOL-Library.Sublist" "HOL-Library.Multiset"
begin

section \<open>The purchase corpus\<close>

text \<open>
  The recommender of \<^verbatim>\<open>recommender_system.py\<close> works on a pandas DataFrame of purchases.
  A frame is modelled by the labels of its columns and the list of its rows. A row has one
  field for each column the recommender reads or writes; the field of a column whose label
  is not among \<open>columns\<close> is never read, since every read goes through \<open>getitem\<close>,
  \<open>where_eq\<close> or \<open>missing\<close>, which raise \<open>KeyError\<close> as pandas does.

  Floating-point numbers (amounts, scaled amounts, estimated ratings) are modelled by the
  reals they stand for; there is no NaN and no rounding.
\<close>

record purchase =
  Customer_ID :: int
  Product_ID :: int
  Category :: string
  Subcategory :: string
  Purchase_Amount :: real
  Purchase_Amount_Scaled :: real

record frame =
  columns :: "string list"
  rows :: "purchase list"

datatype label = Name string | Num int

datatype error = KeyError label | LibraryError string

text \<open>An exception leaves the function at once: the rest runs on a result only.\<close>

definition or_raise :: "error + 'a \<Rightarrow> ('a \<Rightarrow> error + 'b) \<Rightarrow> error + 'b" where
  "or_raise r f = (case r of Inl e \<Rightarrow> Inl e | Inr x \<Rightarrow> f x)"

text \<open>\<^verbatim>\<open>df[name]\<close>: the values of one column, or \<open>KeyError\<close>.\<close>

definition getitem :: "frame \<Rightarrow> string \<Rightarrow> (purchase \<Rightarrow> 'a) \<Rightarrow> error + 'a list" where
  "getitem df name field =
     (if name \<in> set (columns df) then Inr (map field (rows df))
      else Inl (KeyError (Name name)))"

text \<open>\<^verbatim>\<open>df[df[name] == v]\<close>: the rows whose column equals \<open>v\<close>, with the same columns.\<close>

definition where_eq :: "frame \<Rightarrow> string \<Rightarrow> (purchase \<Rightarrow> 'a) \<Rightarrow> 'a \<Rightarrow> error + frame" where
  "where_eq df name field v =
     (if name \<in> set (columns df) then Inr (df\<lparr>rows := filter (\<lambda>r. field r = v) (rows df)\<rparr>)
      else Inl (KeyError (Name name)))"

text \<open>The labels of a list that the frame does not have, as \<^verbatim>\<open>df[[a, b, c]]\<close> checks them.\<close>

definition missing :: "string list \<Rightarrow> frame \<Rightarrow> string list" where
  "missing names df = filter (\<lambda>c. c \<notin> set (columns df)) names"

text \<open>\<^verbatim>\<open>df.empty\<close>: no rows or no columns.\<close>

definition empty_frame :: "frame \<Rightarrow> bool" where
  "empty_frame df = (rows df = [] \<or> columns df = [])"

text \<open>
  \<^verbatim>\<open>Series.unique()\<close> and \<^verbatim>\<open>DataFrame.drop_duplicates()\<close>: the distinct values in order
  of first appearance.
\<close>

fun unique :: "'a list \<Rightarrow> 'a list" where
  "unique [] = []"
| "unique (x # xs) = x # unique (removeAll x xs)"

section \<open>Python built-ins\<close>

text \<open>
  \<^verbatim>\<open>sorted(xs, key=k, reverse=True)\<close>: CPython reverses the list, sorts it with a stable
  ascending sort and reverses the result.
\<close>

definition sorted_reverse :: "('a \<Rightarrow> 'k::linorder) \<Rightarrow> 'a list \<Rightarrow> 'a list" where
  "sorted_reverse key xs = rev (sort_key key (rev xs))"

text \<open>\<^verbatim>\<open>xs[:n]\<close>: a negative \<open>n\<close> counts from the end.\<close>

definition slice_to :: "int \<Rightarrow> 'a list \<Rightarrow> 'a list" where
  "slice_to n xs =
     (if 0 \<le> n then take (nat n) xs else take (length xs - nat (- n)) xs)"

text \<open>\<^verbatim>\<open>dict(pairs)\<close>: a later pair overwrites an earlier one with the same key.\<close>

definition dict_of :: "('k \<times> 'v) list \<Rightarrow> ('k \<rightharpoonup> 'v)" where
  "dict_of ps = foldl (\<lambda>m (k, v). m(k \<mapsto> v)) Map.empty ps"

text \<open>\<^verbatim>\<open>sep.join(parts)\<close>.\<close>

fun join :: "string \<Rightarrow> string list \<Rightarrow> string" where
  "join sep [] = []"
| "join sep [p] = p"
| "join sep (p # q # ps) = p @ sep @ join sep (q # ps)"

text \<open>
  The two float formats of the reason string, \<^verbatim>\<open>{x:,.2f}\<close> and \<^verbatim>\<open>{x:.2f}\<close>, are
  Python's own; the model takes them as parameters.
\<close>

record formatter =
  fmt_money :: "real \<Rightarrow> string"
  fmt_rating :: "real \<Rightarrow> string"

section \<open>The recommendation generator\<close>

text \<open>
  A fitted model is used through \<^verbatim>\<open>model.predict(uid, iid).est\<close> only, so it is
  modelled by that function.
\<close>

type_synonym model = "int \<Rightarrow> int \<Rightarrow> real"

record recommendation =
  rec_Product_ID :: int
  Estimated_Rating :: real
  rec_Category :: string
  rec_Subcategory :: string
  Reason :: string

text \<open>Lines 72 to 74: the products to score.\<close>

definition items_to_predict :: "int \<Rightarrow> frame \<Rightarrow> error + int list" where
  "items_to_predict user_id data =
     or_raise (getitem data ''Product_ID'' Product_ID) (\<lambda>pids.
     or_raise (where_eq data ''Customer_ID'' Customer_ID user_id) (\<lambda>user_rows.
     or_raise (getitem user_rows ''Product_ID'' Product_ID) (\<lambda>user_pids.
       let all_items = unique pids;
           user_items = unique user_pids
       in Inr (filter (\<lambda>item. item \<notin> set user_items) all_items))))"

text \<open>Lines 77 to 83: score every candidate, sort by descending estimate, keep \<open>n\<close>.\<close>

definition predictions :: "model \<Rightarrow> int \<Rightarrow> int list \<Rightarrow> (int \<times> real) list" where
  "predictions model user_id items = map (\<lambda>item. (item, model user_id item)) items"

definition top_predictions :: "model \<Rightarrow> int \<Rightarrow> int \<Rightarrow> int list \<Rightarrow> (int \<times> real) list" where
  "top_predictions model user_id n items =
     slice_to n (sorted_reverse snd (predictions model user_id items))"

text \<open>
  Lines 86 and 87: the de-duplicated (product, category, subcategory) table, turned into a
  dictionary keyed by product id by \<^verbatim>\<open>set_index('Product_ID').T.to_dict()\<close>. The transposed
  table has one column per entry; \<^verbatim>\<open>to_dict\<close> builds the dictionary from the columns in
  order, so of two entries with one product id the later one stays.
\<close>

definition product_details :: "frame \<Rightarrow> error + (int \<times> string \<times> string) list" where
  "product_details data =
     (case missing [''Product_ID'', ''Category'', ''Subcategory''] data of
        c # _ \<Rightarrow> Inl (KeyError (Name c))
      | [] \<Rightarrow> Inr (unique (map (\<lambda>r. (Product_ID r, Category r, Subcategory r)) (rows data))))"

definition product_details_dict :: "frame \<Rightarrow> error + (int \<rightharpoonup> string \<times> string)" where
  "product_details_dict data =
     or_raise (product_details data) (\<lambda>details. Inr (dict_of details))"

text \<open>Lines 89 to 97: the recommendations without their reasons.\<close>

fun detailed_recommendations ::
  "(int \<rightharpoonup> string \<times> string) \<Rightarrow> (int \<times> real) list \<Rightarrow> error + recommendation list" where
  "detailed_recommendations d [] = Inr []"
| "detailed_recommendations d ((iid, est) # ps) =
     (case d iid of
        None \<Rightarrow> Inl (KeyError (Num iid))
      | Some (cat, sub) \<Rightarrow>
          or_raise (detailed_recommendations d ps) (\<lambda>recs.
            Inr (\<lparr>rec_Product_ID = iid, Estimated_Rating = est, rec_Category = cat,
                  rec_Subcategory = sub, Reason = []\<rparr> # recs)))"

text \<open>Lines 101 to 120: the reason of one recommendation.\<close>

definition reason_parts :: "formatter \<Rightarrow> int \<Rightarrow> frame \<Rightarrow> recommendation \<Rightarrow> error + string list" where
  "reason_parts fmt user_id data recommendation =
     or_raise (where_eq data ''Category'' Category (rec_Category recommendation))
       (\<lambda>category_products.
     or_raise (where_eq category_products ''Subcategory'' Subcategory
                 (rec_Subcategory recommendation))
       (\<lambda>subcategory_products.
     or_raise (where_eq data ''Customer_ID'' Customer_ID user_id)
       (\<lambda>user_past_purchases.
     or_raise (where_eq user_past_purchases ''Category'' Category (rec_Category recommendation))
       (\<lambda>user_category_purchases.
     or_raise (where_eq user_category_purchases ''Subcategory'' Subcategory
                 (rec_Subcategory recommendation))
       (\<lambda>user_subcategory_purchases.
     or_raise (getitem subcategory_products ''Purchase_Amount'' Purchase_Amount)
       (\<lambda>amounts.
        let popularity_score = sum_list amounts
        in Inr
          ((if \<not> empty_frame user_category_purchases
            then [''the customer has shown a strong interest in '' @ rec_Category recommendation
                    @ '' items previously'']
            else [])
           @ (if \<not> empty_frame user_subcategory_purchases
              then [''specifically within the '' @ rec_Subcategory recommendation
                      @ '' subcategory'']
              else [])
           @ [''this product is highly popular among other customers with total revenue of $''
                @ fmt_money fmt popularity_score]
           @ [''the predicted rating for this product is ''
                @ fmt_rating fmt (Estimated_Rating recommendation)
                @ '', indicating high satisfaction potential''])))))))"

definition add_reason :: "formatter \<Rightarrow> int \<Rightarrow> frame \<Rightarrow> recommendation \<Rightarrow> error + recommendation" where
  "add_reason fmt user_id data recommendation =
     or_raise (reason_parts fmt user_id data recommendation) (\<lambda>parts.
       Inr (recommendation\<lparr>Reason := ''Recommended because '' @ join ''; '' parts @ ''.''\<rparr>))"

fun add_reasons :: "formatter \<Rightarrow> int \<Rightarrow> frame \<Rightarrow> recommendation list \<Rightarrow> error + recommendation list" where
  "add_reasons fmt user_id data [] = Inr []"
| "add_reasons fmt user_id data (r # rs) =
     or_raise (add_reason fmt user_id data r) (\<lambda>r'.
     or_raise (add_reasons fmt user_id data rs) (\<lambda>rs'. Inr (r' # rs')))"

definition get_recommendations_for_user ::
  "formatter \<Rightarrow> int \<Rightarrow> int \<Rightarrow> frame \<Rightarrow> model \<Rightarrow> error + recommendation list" where
  "get_recommendations_for_user fmt user_id n data model =
     or_raise (items_to_predict user_id data) (\<lambda>items.
     or_raise (product_details_dict data) (\<lambda>d.
     or_raise (detailed_recommendations d (top_predictions model user_id n items)) (\<lambda>recs.
       add_reasons fmt user_id data recs)))"

section \<open>The model trainer\<close>

text \<open>
  \<^verbatim>\<open>np.log1p\<close>. For an amount above \<open>-1\<close> it is the logarithm of \<open>1 + x\<close>; numpy gives
  \<open>-inf\<close> at \<open>-1\<close> and NaN below, which the reals do not have, so the model says nothing
  about such amounts.
\<close>

definition log1p :: "real \<Rightarrow> real" where
  "log1p x = ln (1 + x)"

text \<open>\<^verbatim>\<open>data['Purchase_Amount_Scaled'] = values\<close>: the column is added, or overwritten.\<close>

definition setitem_scaled :: "frame \<Rightarrow> real list \<Rightarrow> frame" where
  "setitem_scaled df values =
     \<lparr>columns = (if ''Purchase_Amount_Scaled'' \<in> set (columns df) then columns df
                 else columns df @ [''Purchase_Amount_Scaled'']),
      rows = map2 (\<lambda>r v. r\<lparr>Purchase_Amount_Scaled := v\<rparr>) (rows df) values\<rparr>"

text \<open>Line 19: the corpus with its scaled amounts.\<close>

definition scale_purchases :: "frame \<Rightarrow> error + frame" where
  "scale_purchases data =
     or_raise (getitem data ''Purchase_Amount'' Purchase_Amount) (\<lambda>amounts.
       Inr (setitem_scaled data (map log1p amounts)))"

text \<open>
  The minimum and the maximum of a column; pandas gives NaN for a column without values,
  here \<open>None\<close>.
\<close>

definition column_min :: "real list \<Rightarrow> real option" where
  "column_min xs = (case xs of [] \<Rightarrow> None | x # ys \<Rightarrow> Some (fold min ys x))"

definition column_max :: "real list \<Rightarrow> real option" where
  "column_max xs = (case xs of [] \<Rightarrow> None | x # ys \<Rightarrow> Some (fold max ys x))"

text \<open>
  Lines 22 and 23: the rating scale of the reader and the (customer, product, rating)
  triples handed to the fitting library, one for each row.
\<close>

record dataset =
  rating_scale :: "real option \<times> real option"
  raw_ratings :: "(int \<times> int \<times> real) list"

definition load_from_df :: "frame \<Rightarrow> error + dataset" where
  "load_from_df data =
     or_raise (getitem data ''Purchase_Amount_Scaled'' Purchase_Amount_Scaled) (\<lambda>scaled.
       case missing [''Customer_ID'', ''Product_ID'', ''Purchase_Amount_Scaled''] data of
         c # _ \<Rightarrow> Inl (KeyError (Name c))
       | [] \<Rightarrow>
           Inr \<lparr>rating_scale = (column_min scaled, column_max scaled),
                raw_ratings =
                  map (\<lambda>r. (Customer_ID r, Product_ID r, Purchase_Amount_Scaled r)) (rows data)\<rparr>)"

text \<open>
  The fitting library is a parameter: the grid search over the SVD++ parameters, which
  gives the best parameters for RMSE, and the fit of a model with given parameters on a
  random 80 percent of the triples. Either may raise (\<open>LibraryError\<close>).
\<close>

record ('m, 'p) surprise =
  grid_search :: "dataset \<Rightarrow> error + 'p"
  fit :: "'p \<Rightarrow> dataset \<Rightarrow> error + 'm"

text \<open>
  What a run of the trainer can change: the two files \<^verbatim>\<open>model.pkl\<close> and
  \<^verbatim>\<open>best_params.pkl\<close> of the working directory (\<open>None\<close> when the file does not exist;
  a file that exists holds a pickled model, or parameter set), and the list of the data
  sets on which a grid search has been started.
\<close>

record ('m, 'p) world =
  model_pkl :: "'m option"
  best_params_pkl :: "'p option"
  grid_searches :: "dataset list"

text \<open>
  Lines 33 to 55: search, fit and save. An exception of the library leaves the files as
  they are.
\<close>

definition train_new ::
  "('m, 'p) surprise \<Rightarrow> ('m, 'p) world \<Rightarrow> dataset \<Rightarrow> (error + 'm) \<times> ('m, 'p) world" where
  "train_new lib w data_surprise =
     (let w = w\<lparr>grid_searches := grid_searches w @ [data_surprise]\<rparr>
      in case grid_search lib data_surprise of
           Inl e \<Rightarrow> (Inl e, w)
         | Inr best_params \<Rightarrow>
             (case fit lib best_params data_surprise of
                Inl e \<Rightarrow> (Inl e, w)
              | Inr model \<Rightarrow>
                  (Inr model, w\<lparr>model_pkl := Some model, best_params_pkl := Some best_params\<rparr>)))"

text \<open>
  \<^verbatim>\<open>train_and_save_model\<close>. The frame is changed in place, so the frame after the call is
  part of the result also when the call raises.
\<close>

definition train_and_save_model ::
  "('m, 'p) surprise \<Rightarrow> ('m, 'p) world \<Rightarrow> frame \<Rightarrow> (error + 'm) \<times> frame \<times> ('m, 'p) world" where
  "train_and_save_model lib w data =
     (case scale_purchases data of
        Inl e \<Rightarrow> (Inl e, data, w)
      | Inr data \<Rightarrow>
          (case load_from_df data of
             Inl e \<Rightarrow> (Inl e, data, w)
           | Inr data_surprise \<Rightarrow>
               (case (model_pkl w, best_params_pkl w) of
                  (Some model, Some best_params) \<Rightarrow> (Inr model, data, w)
                | _ \<Rightarrow>
                    (case train_new lib w data_surprise of
                       (result, w) \<Rightarrow> (result, data, w)))))"

section \<open>Example inputs\<close>

text \<open>
  A small corpus: customer 7 bought a laptop, customer 8 headphones and two books, customer
  9 a laptop. They are used to run the definitions on concrete inputs.
\<close>

definition purchase_row :: "int \<Rightarrow> int \<Rightarrow> string \<Rightarrow> string \<Rightarrow> real \<Rightarrow> purchase" where
  "purchase_row c p cat sub amount =
     \<lparr>Customer_ID = c, Product_ID = p, Category = cat, Subcategory = sub,
      Purchase_Amount = amount, Purchase_Amount_Scaled = 0\<rparr>"

definition example_corpus :: frame where
  "example_corpus =
     \<lparr>columns =
        [''Customer_ID'', ''Product_ID'', ''Category'', ''Subcategory'', ''Purchase_Amount''],
      rows = [purchase_row 7 10 ''Electronics'' ''Laptops'' 100,
              purchase_row 8 20 ''Electronics'' ''Headphones'' 50,
              purchase_row 8 30 ''Books'' ''Fiction'' 20,
              purchase_row 9 10 ''Electronics'' ''Laptops'' 120,
              purchase_row 8 40 ''Books'' ''Comics'' 5]\<rparr>"

text \<open>A corpus in which product 10 is listed under two (category, subcategory) pairs.\<close>

definition relabelled_corpus :: frame where
  "relabelled_corpus =
     \<lparr>columns =
        [''Customer_ID'', ''Product_ID'', ''Category'', ''Subcategory'', ''Purchase_Amount''],
      rows = [purchase_row 1 10 ''Electronics'' ''Laptops'' 100,
              purchase_row 2 10 ''Clothing'' ''Shoes'' 30,
              purchase_row 3 20 ''Books'' ''Fiction'' 20]\<rparr>"

text \<open>A corpus in which customer 1 has bought headphones and product 11 is headphones too.\<close>

definition returning_corpus :: frame where
  "returning_corpus =
     \<lparr>columns =
        [''Customer_ID'', ''Product_ID'', ''Category'', ''Subcategory'', ''Purchase_Amount''],
      rows = [purchase_row 1 10 ''Electronics'' ''Headphones'' 80,
              purchase_row 2 11 ''Electronics'' ''Headphones'' 60,
              purchase_row 2 12 ''Books'' ''Fiction'' 10]\<rparr>"

text \<open>A corpus without the customer column.\<close>

definition anonymous_corpus :: frame where
  "anonymous_corpus =
     \<lparr>columns = [''Product_ID'', ''Category'', ''Subcategory'', ''Purchase_Amount''],
      rows = [purchase_row 0 10 ''Electronics'' ''Laptops'' 100]\<rparr>"

definition example_model :: model where
  "example_model uid iid = (if iid = 30 then 2 else 3)"

text \<open>A fitting library that always finds 20 factors and fits the example model.\<close>

definition example_surprise :: "(model, nat) surprise" where
  "example_surprise = \<lparr>grid_search = (\<lambda>ds. Inr 20), fit = (\<lambda>p ds. Inr example_model)\<rparr>"

definition fresh_world :: "(model, nat) world" where
  "fresh_world = \<lparr>model_pkl = None, best_params_pkl = None, grid_searches = []\<rparr>"

definition cached_world :: "(model, nat) world" where
  "cached_world =
     \<lparr>model_pkl = Some example_model, best_params_pkl = Some 20, grid_searches = []\<rparr>"

definition example_formatter :: formatter where
  "example_formatter = \<lparr>fmt_money = (\<lambda>x. ''<amount>''), fmt_rating = (\<lambda>x. ''<rating>'')\<rparr>"

section \<open>Facts about the built-ins\<close>

lemma or_raise_Inr: "or_raise r f = Inr y \<longleftrightarrow> (\<exists>x. r = Inr x \<and> f x = Inr y)"
  by (cases r) (simp_all add: or_raise_def)

lemma set_unique: "set (unique xs) = set xs"
  by (induction xs rule: unique.induct) auto

lemma distinct_unique: "distinct (unique xs)"
  by (induction xs rule: unique.induct) (auto simp: set_unique)

lemma mset_sorted_reverse: "mset (sorted_reverse key xs) = mset xs"
  by (simp add: sorted_reverse_def)

lemma length_sorted_reverse: "length (sorted_reverse key xs) = length xs"
  by (simp add: sorted_reverse_def)

lemma distinct_map_sorted_reverse:
  "distinct (map f (sorted_reverse key xs)) = distinct (map f xs)"
proof -
  have "mset (map f (sorted_reverse key xs)) = mset (map f xs)"
    by (simp add: mset_sorted_reverse)
  then show ?thesis
    by (rule mset_eq_imp_distinct_iff)
qed

lemma sorted_reverse_descending:
  "sorted_wrt (\<lambda>a b. key b \<le> key a) (sorted_reverse key xs)"
proof -
  have "sorted (map key (sort_key key (rev xs)))"
    by simp
  then have "sorted_wrt (\<lambda>a b. key a \<le> key b) (sort_key key (rev xs))"
    by (simp add: sorted_map)
  then show ?thesis
    by (simp add: sorted_reverse_def sorted_wrt_rev)
qed

lemma sorted_reverse_stable:
  "filter (\<lambda>y. key y = k) (sorted_reverse key xs) = filter (\<lambda>y. key y = k) xs"
  by (simp add: sorted_reverse_def rev_filter [symmetric] sort_key_stable)

lemma prefix_slice_to: "prefix (slice_to n xs) xs"
  by (simp add: slice_to_def take_is_prefix)

lemma length_slice_to:
  "0 \<le> n \<Longrightarrow> int (length (slice_to n xs)) = min n (int (length xs))"
  by (simp add: slice_to_def)

lemma dict_of_map_of: "dict_of ps = map_of (rev ps)"
  by (induction ps rule: rev_induct) (auto simp: dict_of_def)

section \<open>Facts about the generator\<close>

lemma items_to_predict_Inr:
  assumes "items_to_predict user_id data = Inr items"
  shows "items =
    filter (\<lambda>item. item \<notin> Product_ID ` {r \<in> set (rows data). Customer_ID r = user_id})
      (unique (map Product_ID (rows data)))"
  using assms
  by (auto simp: items_to_predict_def or_raise_Inr getitem_def where_eq_def Let_def set_unique
      split: if_splits intro!: filter_cong)

lemma items_to_predict_total:
  assumes "''Product_ID'' \<in> set (columns data)" "''Customer_ID'' \<in> set (columns data)"
  shows "\<exists>items. items_to_predict user_id data = Inr items"
  using assms by (simp add: items_to_predict_def or_raise_def getitem_def where_eq_def Let_def)

lemma detailed_recommendations_Inr:
  "detailed_recommendations d ps = Inr recs \<Longrightarrow>
     map (\<lambda>r. (rec_Product_ID r, Estimated_Rating r)) recs = ps \<and>
     (\<forall>r \<in> set recs. d (rec_Product_ID r) = Some (rec_Category r, rec_Subcategory r))"
proof (induction d ps arbitrary: recs rule: detailed_recommendations.induct)
  case (1 d)
  then show ?case by simp
next
  case (2 d iid est ps)
  then show ?case
    by (auto simp: or_raise_Inr split: option.splits)
qed

lemma detailed_recommendations_total:
  "fst ` set ps \<subseteq> dom d \<Longrightarrow> \<exists>recs. detailed_recommendations d ps = Inr recs"
  by (induction ps) (auto simp: or_raise_def split: sum.splits)

lemma add_reason_Inr:
  "add_reason fmt user_id data r = Inr r' \<Longrightarrow>
     rec_Product_ID r' = rec_Product_ID r \<and> Estimated_Rating r' = Estimated_Rating r \<and>
     rec_Category r' = rec_Category r \<and> rec_Subcategory r' = rec_Subcategory r"
  by (auto simp: add_reason_def or_raise_Inr)

lemma add_reasons_Inr:
  "add_reasons fmt user_id data rs = Inr rs' \<Longrightarrow>
     list_all2 (\<lambda>r r'. add_reason fmt user_id data r = Inr r') rs rs'"
  by (induction rs arbitrary: rs') (auto simp: or_raise_Inr)

lemma add_reasons_fields:
  assumes "add_reasons fmt user_id data rs = Inr rs'"
  shows "map (\<lambda>r. (rec_Product_ID r, Estimated_Rating r, rec_Category r, rec_Subcategory r)) rs' =
         map (\<lambda>r. (rec_Product_ID r, Estimated_Rating r, rec_Category r, rec_Subcategory r)) rs"
  using add_reasons_Inr [OF assms]
  by (induction rs rs' rule: list_all2_induct) (auto dest: add_reason_Inr)

lemma get_recommendations_Inr:
  assumes "get_recommendations_for_user fmt user_id n data model = Inr recs"
  obtains items d pre where
    "items_to_predict user_id data = Inr items"
    "product_details_dict data = Inr d"
    "detailed_recommendations d (top_predictions model user_id n items) = Inr pre"
    "add_reasons fmt user_id data pre = Inr recs"
  using assms unfolding get_recommendations_for_user_def or_raise_Inr by blast

lemma recommendations_top_predictions:
  assumes "get_recommendations_for_user fmt user_id n data model = Inr recs"
    and "items_to_predict user_id data = Inr items"
  shows "map (\<lambda>r. (rec_Product_ID r, Estimated_Rating r)) recs =
         top_predictions model user_id n items"
proof -
  from assms obtain d pre where
    pre: "detailed_recommendations d (top_predictions model user_id n items) = Inr pre"
    and recs: "add_reasons fmt user_id data pre = Inr recs"
    by (elim get_recommendations_Inr) simp
  have pairs: "map (\<lambda>r. (rec_Product_ID r, Estimated_Rating r)) rs =
      map (\<lambda>(p, e, c, s). (p, e))
        (map (\<lambda>r. (rec_Product_ID r, Estimated_Rating r, rec_Category r, rec_Subcategory r)) rs)"
    for rs :: "recommendation list"
    by simp
  have "map (\<lambda>r. (rec_Product_ID r, Estimated_Rating r)) recs =
        map (\<lambda>r. (rec_Product_ID r, Estimated_Rating r)) pre"
    by (simp only: pairs [of recs] pairs [of pre] add_reasons_fields [OF recs])
  also have "\<dots> = top_predictions model user_id n items"
    using detailed_recommendations_Inr [OF pre] by (rule conjunct1)
  finally show ?thesis .
qed

lemma distinct_items_to_predict:
  "items_to_predict user_id data = Inr items \<Longrightarrow> distinct items"
  by (auto dest!: items_to_predict_Inr simp: distinct_unique)

lemma distinct_map_prefix: "prefix ys xs \<Longrightarrow> distinct (map f xs) \<Longrightarrow> distinct (map f ys)"
  by (auto simp: prefix_def)

lemma distinct_top_predictions:
  assumes "distinct items"
  shows "distinct (map fst (top_predictions model user_id n items))"
proof -
  from assms have "distinct (map fst (predictions model user_id items))"
    by (simp add: predictions_def comp_def)
  then have "distinct (map fst (sorted_reverse snd (predictions model user_id items)))"
    by (simp add: distinct_map_sorted_reverse)
  then show ?thesis
    unfolding top_predictions_def by (rule distinct_map_prefix [OF prefix_slice_to])
qed

lemma sorted_wrt_prefix: "prefix ys xs \<Longrightarrow> sorted_wrt P xs \<Longrightarrow> sorted_wrt P ys"
  by (auto simp: prefix_def sorted_wrt_append)

lemma top_predictions_descending:
  "sorted_wrt (\<lambda>a b. snd b \<le> snd a) (top_predictions model user_id n items)"
  unfolding top_predictions_def
  by (rule sorted_wrt_prefix [OF prefix_slice_to sorted_reverse_descending])

lemma top_predictions_stable:
  "prefix (map fst (filter (\<lambda>p. snd p = v) (top_predictions model user_id n items)))
     (filter (\<lambda>item. model user_id item = v) items)"
proof -
  have "prefix (filter (\<lambda>p. snd p = v) (top_predictions model user_id n items))
      (filter (\<lambda>p. snd p = v) (sorted_reverse snd (predictions model user_id items)))"
    unfolding top_predictions_def by (rule filter_mono_prefix [OF prefix_slice_to])
  then have "prefix (filter (\<lambda>p. snd p = v) (top_predictions model user_id n items))
      (filter (\<lambda>p. snd p = v) (predictions model user_id items))"
    by (simp only: sorted_reverse_stable)
  then have "prefix (map fst (filter (\<lambda>p. snd p = v) (top_predictions model user_id n items)))
      (map fst (filter (\<lambda>p. snd p = v) (predictions model user_id items)))"
    by (rule map_mono_prefix)
  moreover have "map fst (filter (\<lambda>p. snd p = v) (predictions model user_id items)) =
      filter (\<lambda>item. model user_id item = v) items"
    by (simp add: predictions_def filter_map comp_def)
  ultimately show ?thesis by simp
qed

lemma top_predictions_estimates:
  "p \<in> set (top_predictions model user_id n items) \<Longrightarrow> snd p = model user_id (fst p)"
  using set_mono_prefix [OF prefix_slice_to [of n "sorted_reverse snd (predictions model user_id items)"]]
  by (auto simp: top_predictions_def sorted_reverse_def predictions_def)

lemma set_items_to_predict:
  assumes "items_to_predict user_id data = Inr items"
  shows "set items = Product_ID ` set (rows data) -
    Product_ID ` {r \<in> set (rows data). Customer_ID r = user_id}"
  by (subst items_to_predict_Inr [OF assms]) (auto simp: set_unique)

lemma set_top_predictions:
  "fst ` set (top_predictions model user_id n items) \<subseteq> set items"
proof -
  have "set (top_predictions model user_id n items) \<subseteq>
      set (sorted_reverse snd (predictions model user_id items))"
    unfolding top_predictions_def by (rule set_mono_prefix [OF prefix_slice_to])
  also have "\<dots> = set (predictions model user_id items)"
    by (simp add: sorted_reverse_def)
  finally show ?thesis
    by (auto simp: predictions_def)
qed

lemma recommended_products_candidates:
  assumes "get_recommendations_for_user fmt user_id n data model = Inr recs"
    and "items_to_predict user_id data = Inr items"
  shows "rec_Product_ID ` set recs \<subseteq> set items"
proof -
  have "rec_Product_ID ` set recs =
      fst ` set (map (\<lambda>r. (rec_Product_ID r, Estimated_Rating r)) recs)"
    by (simp add: image_comp comp_def)
  also have "\<dots> = fst ` set (top_predictions model user_id n items)"
    by (simp only: recommendations_top_predictions [OF assms])
  finally show ?thesis
    using set_top_predictions [of model user_id n items] by simp
qed

lemma dom_dict_of: "dom (dict_of ps) = fst ` set ps"
  by (simp add: dict_of_map_of dom_map_of_conv_image_fst)

lemma product_details_total:
  assumes "set [''Product_ID'', ''Category'', ''Subcategory''] \<subseteq> set (columns data)"
  shows "product_details data =
    Inr (unique (map (\<lambda>r. (Product_ID r, Category r, Subcategory r)) (rows data)))"
  using assms by (simp add: product_details_def missing_def)


lemma reason_parts_total:
  assumes "set [''Customer_ID'', ''Category'', ''Subcategory'', ''Purchase_Amount'']
    \<subseteq> set (columns data)"
  shows "\<exists>parts. reason_parts fmt user_id data r = Inr parts"
  using assms by (simp add: reason_parts_def where_eq_def getitem_def or_raise_def Let_def)

lemma add_reasons_total:
  assumes "set [''Customer_ID'', ''Category'', ''Subcategory'', ''Purchase_Amount'']
    \<subseteq> set (columns data)"
  shows "\<exists>rs'. add_reasons fmt user_id data rs = Inr rs'"
proof (induction rs)
  case Nil
  show ?case by simp
next
  case (Cons r rs)
  from reason_parts_total [OF assms] obtain parts where
    "reason_parts fmt user_id data r = Inr parts" by blast
  then have "\<exists>r'. add_reason fmt user_id data r = Inr r'"
    by (simp add: add_reason_def or_raise_def)
  with Cons show ?case
    by (auto simp: or_raise_def)
qed

lemma get_recommendations_total:
  assumes "set [''Customer_ID'', ''Product_ID'', ''Category'', ''Subcategory'',
    ''Purchase_Amount''] \<subseteq> set (columns data)"
  shows "\<exists>recs. get_recommendations_for_user fmt user_id n data model = Inr recs"
proof -
  from assms obtain items where items: "items_to_predict user_id data = Inr items"
    using items_to_predict_total [of data user_id] by auto
  let ?details = "unique (map (\<lambda>r. (Product_ID r, Category r, Subcategory r)) (rows data))"
  have details: "product_details_dict data = Inr (dict_of ?details)"
    using assms by (simp add: product_details_dict_def product_details_total or_raise_def)
  have "set items \<subseteq> dom (dict_of ?details)"
    using set_items_to_predict [OF items]
    by (auto simp: dom_dict_of set_unique image_comp comp_def)
  then have "fst ` set (top_predictions model user_id n items) \<subseteq> dom (dict_of ?details)"
    using set_top_predictions [of model user_id n items] by blast
  from detailed_recommendations_total [OF this] obtain pre where
    pre: "detailed_recommendations (dict_of ?details) (top_predictions model user_id n items) =
      Inr pre" by blast
  from assms have "\<exists>recs. add_reasons fmt user_id data pre = Inr recs"
    by (intro add_reasons_total) simp
  with items details pre show ?thesis
    by (simp add: get_recommendations_for_user_def or_raise_def)
qed

lemma length_recommendations:
  assumes "get_recommendations_for_user fmt user_id n data model = Inr recs"
    and "items_to_predict user_id data = Inr items"
  shows "length recs = length (slice_to n items)"
proof -
  have "length recs = length (map (\<lambda>r. (rec_Product_ID r, Estimated_Rating r)) recs)"
    by simp
  also have "\<dots> = length (top_predictions model user_id n items)"
    by (simp only: recommendations_top_predictions [OF assms])
  also have "\<dots> = length (slice_to n items)"
    by (simp add: top_predictions_def slice_to_def length_sorted_reverse predictions_def)
  finally show ?thesis .
qed

lemma card_items_to_predict:
  assumes "items_to_predict user_id data = Inr items"
  shows "length items = card (Product_ID ` set (rows data) -
    Product_ID ` {r \<in> set (rows data). Customer_ID r = user_id})"
  using distinct_card [OF distinct_items_to_predict [OF assms]]
  by (simp only: set_items_to_predict [OF assms])





lemma where_eq_Inr:
  "where_eq df name field v = Inr df' \<longleftrightarrow>
     name \<in> set (columns df) \<and> df' = df\<lparr>rows := filter (\<lambda>r. field r = v) (rows df)\<rparr>"
  by (auto simp: where_eq_def)

lemma getitem_Inr:
  "getitem df name field = Inr xs \<longleftrightarrow> name \<in> set (columns df) \<and> xs = map field (rows df)"
  by (auto simp: getitem_def)

lemma reason_parts_columns:
  assumes "reason_parts fmt user_id data r = Inr parts"
  shows "set [''Customer_ID'', ''Category'', ''Subcategory'', ''Purchase_Amount'']
    \<subseteq> set (columns data)"
  using assms unfolding reason_parts_def or_raise_Inr where_eq_Inr getitem_Inr
  by (elim exE conjE) simp

lemma reason_parts_value:
  assumes "set [''Customer_ID'', ''Category'', ''Subcategory'', ''Purchase_Amount'']
    \<subseteq> set (columns data)"
  shows "reason_parts fmt user_id data r = Inr (
    (if \<exists>x \<in> set (rows data). Customer_ID x = user_id \<and> Category x = rec_Category r
     then [''the customer has shown a strong interest in '' @ rec_Category r
             @ '' items previously'']
     else []) @
    (if \<exists>x \<in> set (rows data). Customer_ID x = user_id \<and> Category x = rec_Category r \<and>
          Subcategory x = rec_Subcategory r
     then [''specifically within the '' @ rec_Subcategory r @ '' subcategory'']
     else []) @
    [''this product is highly popular among other customers with total revenue of $'' @
       fmt_money fmt (sum_list (map Purchase_Amount
         (filter (\<lambda>x. Category x = rec_Category r \<and> Subcategory x = rec_Subcategory r)
            (rows data)))),
     ''the predicted rating for this product is '' @ fmt_rating fmt (Estimated_Rating r) @
       '', indicating high satisfaction potential''])"
proof -
  from assms have nonempty: "columns data \<noteq> []"
    by auto
  have popular: "filter (\<lambda>x. Subcategory x = rec_Subcategory r \<and> Category x = rec_Category r)
      (rows data) =
      filter (\<lambda>x. Category x = rec_Category r \<and> Subcategory x = rec_Subcategory r) (rows data)"
    by (simp add: conj_commute)
  from assms show ?thesis
    by (simp add: reason_parts_def where_eq_def getitem_def or_raise_def Let_def empty_frame_def
        nonempty popular filter_empty_conv)
qed

lemma add_reasons_member:
  assumes "add_reasons fmt user_id data rs = Inr rs'" and "r' \<in> set rs'"
  shows "\<exists>r \<in> set rs. add_reason fmt user_id data r = Inr r'"
  using add_reasons_Inr [OF assms(1)] assms(2)
  by (induction rs rs' rule: list_all2_induct) auto

section \<open>Facts about the trainer\<close>

lemma map2_same: "map2 f xs (map g xs) = map (\<lambda>x. f x (g x)) xs"
  by (induction xs) simp_all

lemma scale_purchases_Inr:
  "scale_purchases data = Inr data' \<longleftrightarrow>
     ''Purchase_Amount'' \<in> set (columns data) \<and>
     data' = setitem_scaled data (map log1p (map Purchase_Amount (rows data)))"
  by (auto simp: scale_purchases_def or_raise_Inr getitem_def)

lemma scale_purchases_Inl:
  "scale_purchases data = Inl e \<longleftrightarrow>
     ''Purchase_Amount'' \<notin> set (columns data) \<and> e = KeyError (Name ''Purchase_Amount'')"
  by (auto simp: scale_purchases_def or_raise_def getitem_def)

lemma rows_scaled:
  "rows (setitem_scaled data (map log1p (map Purchase_Amount (rows data)))) =
     map (\<lambda>r. r\<lparr>Purchase_Amount_Scaled := log1p (Purchase_Amount r)\<rparr>) (rows data)"
  by (simp add: setitem_scaled_def map2_same comp_def)

lemma columns_scaled:
  "set (columns (setitem_scaled data values)) =
     insert ''Purchase_Amount_Scaled'' (set (columns data))"
  by (auto simp: setitem_scaled_def)

lemma load_from_df_Inr:
  assumes "load_from_df data = Inr data_surprise"
  shows "raw_ratings data_surprise =
    map (\<lambda>r. (Customer_ID r, Product_ID r, Purchase_Amount_Scaled r)) (rows data)"
  using assms
  by (cases "missing [''Customer_ID'', ''Product_ID'', ''Purchase_Amount_Scaled''] data")
    (auto simp: load_from_df_def or_raise_Inr)

lemma load_from_df_total:
  assumes "set [''Customer_ID'', ''Product_ID'', ''Purchase_Amount_Scaled'']
    \<subseteq> set (columns data)"
  shows "\<exists>data_surprise. load_from_df data = Inr data_surprise"
  using assms by (simp add: load_from_df_def or_raise_def getitem_def missing_def)

lemma grid_searches_train_new:
  "grid_searches (snd (train_new lib w data_surprise)) = grid_searches w @ [data_surprise]"
  by (simp add: train_new_def Let_def split: sum.splits)

lemma train_and_save_model_cached:
  assumes "scale_purchases data = Inr data'" and "load_from_df data' = Inr data_surprise"
    and "model_pkl w = Some model" and "best_params_pkl w = Some best_params"
  shows "train_and_save_model lib w data = (Inr model, data', w)"
  using assms by (simp add: train_and_save_model_def)

lemma train_and_save_model_new:
  assumes "scale_purchases data = Inr data'" and "load_from_df data' = Inr data_surprise"
    and "model_pkl w = None \<or> best_params_pkl w = None"
  shows "train_and_save_model lib w data =
    (fst (train_new lib w data_surprise), data', snd (train_new lib w data_surprise))"
  using assms
  by (auto simp: train_and_save_model_def split: option.splits prod.splits)

lemma load_from_df_scaled_Inl:
  assumes "''Customer_ID'' \<notin> set (columns data) \<or> ''Product_ID'' \<notin> set (columns data)"
  shows "\<exists>c \<in> set (missing [''Customer_ID'', ''Product_ID''] data).
    load_from_df (setitem_scaled data values) = Inl (KeyError (Name c))"
  using assms
  by (auto simp: load_from_df_def or_raise_def getitem_def missing_def columns_scaled)

lemma train_and_save_model_missing:
  assumes "missing [''Customer_ID'', ''Product_ID'', ''Purchase_Amount''] data \<noteq> []"
  shows "\<exists>c \<in> set (missing [''Customer_ID'', ''Product_ID'', ''Purchase_Amount''] data).
    \<exists>data'. train_and_save_model lib w data = (Inl (KeyError (Name c)), data', w)"
proof (cases "''Purchase_Amount'' \<in> set (columns data)")
  case False
  then have "scale_purchases data = Inl (KeyError (Name ''Purchase_Amount''))"
    by (simp add: scale_purchases_Inl)
  then have "train_and_save_model lib w data = (Inl (KeyError (Name ''Purchase_Amount'')), data, w)"
    by (simp add: train_and_save_model_def)
  with False show ?thesis
    by (auto simp: missing_def)
next
  case True
  let ?data' = "setitem_scaled data (map log1p (map Purchase_Amount (rows data)))"
  from True have scaled: "scale_purchases data = Inr ?data'"
    by (simp add: scale_purchases_Inr)
  from True assms have "''Customer_ID'' \<notin> set (columns data) \<or> ''Product_ID'' \<notin> set (columns data)"
    by (auto simp: missing_def split: if_splits)
  from load_from_df_scaled_Inl [OF this] obtain c where
    c: "c \<in> set (missing [''Customer_ID'', ''Product_ID''] data)"
    and "load_from_df ?data' = Inl (KeyError (Name c))"
    by blast
  with scaled have "train_and_save_model lib w data = (Inl (KeyError (Name c)), ?data', w)"
    by (simp add: train_and_save_model_def)
  moreover from c have "c \<in> set (missing [''Customer_ID'', ''Product_ID'', ''Purchase_Amount''] data)"
    by (auto simp: missing_def split: if_splits)
  ultimately show ?thesis
    by blast
qed

lemma corpus_prepared:
  assumes "missing [''Customer_ID'', ''Product_ID'', ''Purchase_Amount''] data = []"
  shows "\<exists>data' data_surprise.
    scale_purchases data = Inr data' \<and> load_from_df data' = Inr data_surprise"
proof -
  from assms have cols: "''Customer_ID'' \<in> set (columns data)"
    "''Product_ID'' \<in> set (columns data)" "''Purchase_Amount'' \<in> set (columns data)"
    by (auto simp: missing_def split: if_splits)
  let ?data' = "setitem_scaled data (map log1p (map Purchase_Amount (rows data)))"
  from cols have "scale_purchases data = Inr ?data'"
    by (simp add: scale_purchases_Inr)
  moreover from cols have "\<exists>data_surprise. load_from_df ?data' = Inr data_surprise"
    by (intro load_from_df_total) (simp add: columns_scaled)
  ultimately show ?thesis
    by blast
qed

text \<open>
  Line 22: for a corpus with rows the rating scale handed to the reader is the least and
  the greatest scaled amount.
\<close>

lemma column_min_Min: "xs \<noteq> [] \<Longrightarrow> column_min xs = Some (Min (set xs))"
  by (cases xs) (simp_all add: column_min_def Min.set_eq_fold [symmetric])

lemma column_max_Max: "xs \<noteq> [] \<Longrightarrow> column_max xs = Some (Max (set xs))"
  by (cases xs) (simp_all add: column_max_def Max.set_eq_fold [symmetric])

lemma rating_scale_of_corpus:
  assumes "scale_purchases data = Inr data'" and "load_from_df data' = Inr data_surprise"
    and "rows data \<noteq> []"
  shows "rating_scale data_surprise =
    (Some (Min ((\<lambda>r. ln (1 + Purchase_Amount r)) ` set (rows data))),
     Some (Max ((\<lambda>r. ln (1 + Purchase_Amount r)) ` set (rows data))))"
proof -
  from assms(1) have data': "data' =
      setitem_scaled data (map log1p (map Purchase_Amount (rows data)))"
    by (simp only: scale_purchases_Inr)
  let ?scaled = "map Purchase_Amount_Scaled (rows data')"
  have scaled: "?scaled = map (\<lambda>r. ln (1 + Purchase_Amount r)) (rows data)"
    unfolding data' rows_scaled by (simp add: comp_def log1p_def)
  from assms(2) have "rating_scale data_surprise = (column_min ?scaled, column_max ?scaled)"
    by (cases "missing [''Customer_ID'', ''Product_ID'', ''Purchase_Amount_Scaled''] data'")
      (auto simp: load_from_df_def or_raise_Inr getitem_def split: if_splits)
  moreover from assms(3) have "?scaled \<noteq> []"
    by (simp add: scaled)
  ultimately show ?thesis
    by (simp add: column_min_Min column_max_Max scaled)
qed

section \<open>Properties of the recommendation generator\<close>

text \<open>
  Claim C10. Whenever \<open>get_recommendations_for_user\<close> returns a list, each product id
  occurs at most once in it: the candidates are the distinct product ids of the corpus, and
  scoring, sorting and truncating keep them distinct.
\<close>

theorem recommended_products_distinct:
  assumes "get_recommendations_for_user fmt user_id n data model = Inr recs"
  shows "distinct (map rec_Product_ID recs)"
proof -
  from assms obtain items where items: "items_to_predict user_id data = Inr items"
    by (elim get_recommendations_Inr)
  have "map rec_Product_ID recs =
      map fst (map (\<lambda>r. (rec_Product_ID r, Estimated_Rating r)) recs)"
    by (simp add: comp_def)
  also have "\<dots> = map fst (top_predictions model user_id n items)"
    by (simp only: recommendations_top_predictions [OF assms items])
  finally show ?thesis
    using distinct_top_predictions [OF distinct_items_to_predict [OF items]] by simp
qed

theorem recommended_products_distinct_witness:
  "\<exists>recs. get_recommendations_for_user example_formatter 7 2 example_corpus example_model = Inr recs
     \<and> map rec_Product_ID recs = [20, 40] \<and> distinct (map rec_Product_ID recs)"
proof -
  define recs where
    "recs = projr (get_recommendations_for_user example_formatter 7 2 example_corpus example_model)"
  have run: "get_recommendations_for_user example_formatter 7 2 example_corpus example_model = Inr recs"
    unfolding recs_def by code_simp
  have ids: "map rec_Product_ID recs = [20, 40]"
    unfolding recs_def by code_simp
  show ?thesis
  proof (intro exI conjI)
    show "get_recommendations_for_user example_formatter 7 2 example_corpus example_model = Inr recs"
      by (rule run)
    show "map rec_Product_ID recs = [20, 40]"
      by (rule ids)
    show "distinct (map rec_Product_ID recs)"
      by (rule recommended_products_distinct [OF run])
  qed
qed

text \<open>
  Claim C4. The returned list is non-increasing in \<open>Estimated_Rating\<close>, where the rating of
  a recommendation is the estimate of the model for its product; and for every rating \<open>v\<close>
  the returned products rated \<open>v\<close> are, in their order, an initial segment of the candidates
  rated \<open>v\<close> in the order in which the candidates were enumerated, so that equal ratings
  keep the enumeration order.
\<close>

theorem recommendations_sorted_stable:
  assumes "get_recommendations_for_user fmt user_id n data model = Inr recs"
  shows "sorted_wrt (\<lambda>a b. Estimated_Rating b \<le> Estimated_Rating a) recs \<and>
    (\<forall>r \<in> set recs. Estimated_Rating r = model user_id (rec_Product_ID r)) \<and>
    (\<exists>items. items_to_predict user_id data = Inr items \<and>
       (\<forall>v. prefix (map rec_Product_ID (filter (\<lambda>r. Estimated_Rating r = v) recs))
              (filter (\<lambda>item. model user_id item = v) items)))"
proof -
  from assms obtain items where items: "items_to_predict user_id data = Inr items"
    by (elim get_recommendations_Inr)
  let ?pair = "\<lambda>r. (rec_Product_ID r, Estimated_Rating r)"
  have top: "map ?pair recs = top_predictions model user_id n items"
    by (rule recommendations_top_predictions [OF assms items])
  have "sorted_wrt (\<lambda>a b. snd b \<le> snd a) (map ?pair recs)"
    by (simp only: top top_predictions_descending)
  then have sorted: "sorted_wrt (\<lambda>a b. Estimated_Rating b \<le> Estimated_Rating a) recs"
    by (simp add: sorted_wrt_map)
  have "prefix (map rec_Product_ID (filter (\<lambda>r. Estimated_Rating r = v) recs))
      (filter (\<lambda>item. model user_id item = v) items)" for v
  proof -
    have "map rec_Product_ID (filter (\<lambda>r. Estimated_Rating r = v) recs) =
        map fst (filter (\<lambda>p. snd p = v) (map ?pair recs))"
      by (simp add: filter_map comp_def)
    then show ?thesis
      by (simp only: top top_predictions_stable)
  qed
  moreover have "\<forall>r \<in> set recs. Estimated_Rating r = model user_id (rec_Product_ID r)"
  proof
    fix r assume "r \<in> set recs"
    then have "?pair r \<in> set (map ?pair recs)"
      by (rule imageI [of r "set recs" ?pair, unfolded set_map [symmetric]])
    then have "?pair r \<in> set (top_predictions model user_id n items)"
      by (simp only: top)
    from top_predictions_estimates [OF this]
    show "Estimated_Rating r = model user_id (rec_Product_ID r)" by simp
  qed
  ultimately show ?thesis using sorted items by blast
qed

theorem recommendations_sorted_stable_witness:
  "\<exists>recs. get_recommendations_for_user example_formatter 7 3 example_corpus example_model = Inr recs \<and>
     map (\<lambda>r. (rec_Product_ID r, Estimated_Rating r)) recs = [(20, 3), (40, 3), (30, 2)] \<and>
     sorted_wrt (\<lambda>a b. Estimated_Rating b \<le> Estimated_Rating a) recs \<and>
     (\<forall>r \<in> set recs. Estimated_Rating r = example_model 7 (rec_Product_ID r)) \<and>
     (\<exists>items. items_to_predict 7 example_corpus = Inr items \<and>
        (\<forall>v. prefix (map rec_Product_ID (filter (\<lambda>r. Estimated_Rating r = v) recs))
               (filter (\<lambda>item. example_model 7 item = v) items)))"
proof -
  define recs where
    "recs = projr (get_recommendations_for_user example_formatter 7 3 example_corpus example_model)"
  have run: "get_recommendations_for_user example_formatter 7 3 example_corpus example_model = Inr recs"
    unfolding recs_def by code_simp
  have pairs: "map (\<lambda>r. (rec_Product_ID r, Estimated_Rating r)) recs = [(20, 3), (40, 3), (30, 2)]"
    unfolding recs_def by code_simp
  show ?thesis
    by (rule exI [where x = recs])
      (rule conjI [OF run conjI [OF pairs recommendations_sorted_stable [OF run]]])
qed

text \<open>
  Claim C1. The products that \<open>get_recommendations_for_user\<close> scores are exactly the
  product ids of the corpus without those of the rows of the customer. The list it returns
  is the slice of the sorted scores of exactly these candidates, so that every returned
  product is a candidate and none is among the products of the customer's rows, and with a
  count that reaches the number of candidates the returned products are all of them. On a
  corpus with the five columns that the generator reads a list is returned. For a customer
  without a row in the corpus every product id of the corpus is a candidate.
\<close>

theorem candidates_exclude_purchases:
  assumes "items_to_predict user_id data = Inr items"
  shows "fst ` set (predictions model user_id items) =
      Product_ID ` set (rows data) -
      Product_ID ` {r \<in> set (rows data). Customer_ID r = user_id} \<and>
    (get_recommendations_for_user fmt user_id n data model = Inr recs \<longrightarrow>
      map (\<lambda>r. (rec_Product_ID r, Estimated_Rating r)) recs =
        slice_to n (sorted_reverse snd (predictions model user_id items)) \<and>
      (\<forall>r \<in> set recs. rec_Product_ID r \<in> set items \<and>
         rec_Product_ID r \<notin> Product_ID ` {r \<in> set (rows data). Customer_ID r = user_id}) \<and>
      (int (length items) \<le> n \<longrightarrow>
         rec_Product_ID ` set recs =
           Product_ID ` set (rows data) -
           Product_ID ` {r \<in> set (rows data). Customer_ID r = user_id})) \<and>
    (set [''Customer_ID'', ''Product_ID'', ''Category'', ''Subcategory'', ''Purchase_Amount'']
        \<subseteq> set (columns data) \<longrightarrow>
      (\<exists>recs. get_recommendations_for_user fmt user_id n data model = Inr recs)) \<and>
    (user_id \<notin> Customer_ID ` set (rows data) \<longrightarrow>
      set items = Product_ID ` set (rows data))"
proof -
  let ?candidates = "Product_ID ` set (rows data) -
      Product_ID ` {r \<in> set (rows data). Customer_ID r = user_id}"
  have scored: "fst ` set (predictions model user_id items) = set items"
    by (simp add: predictions_def image_comp comp_def)
  have first: "fst ` set (predictions model user_id items) = ?candidates"
    by (simp only: scored set_items_to_predict [OF assms])
  have second: "map (\<lambda>r. (rec_Product_ID r, Estimated_Rating r)) recs =
        slice_to n (sorted_reverse snd (predictions model user_id items)) \<and>
      (\<forall>r \<in> set recs. rec_Product_ID r \<in> set items \<and>
         rec_Product_ID r \<notin> Product_ID ` {r \<in> set (rows data). Customer_ID r = user_id}) \<and>
      (int (length items) \<le> n \<longrightarrow> rec_Product_ID ` set recs = ?candidates)"
    if run: "get_recommendations_for_user fmt user_id n data model = Inr recs"
  proof (intro conjI impI)
    show top: "map (\<lambda>r. (rec_Product_ID r, Estimated_Rating r)) recs =
        slice_to n (sorted_reverse snd (predictions model user_id items))"
      using recommendations_top_predictions [OF run assms]
      by (simp only: top_predictions_def)
    from recommended_products_candidates [OF run assms]
    show "\<forall>r \<in> set recs. rec_Product_ID r \<in> set items \<and>
        rec_Product_ID r \<notin> Product_ID ` {r \<in> set (rows data). Customer_ID r = user_id}"
      unfolding set_items_to_predict [OF assms] by blast
    assume all: "int (length items) \<le> n"
    then have "slice_to n (sorted_reverse snd (predictions model user_id items)) =
        sorted_reverse snd (predictions model user_id items)"
      by (simp add: slice_to_def length_sorted_reverse predictions_def)
    with top have "map (\<lambda>r. (rec_Product_ID r, Estimated_Rating r)) recs =
        sorted_reverse snd (predictions model user_id items)"
      by simp
    then have "set (map (\<lambda>r. (rec_Product_ID r, Estimated_Rating r)) recs) =
        set (predictions model user_id items)"
      by (simp only: sorted_reverse_def set_rev set_sort)
    then have "fst ` set (map (\<lambda>r. (rec_Product_ID r, Estimated_Rating r)) recs) =
        fst ` set (predictions model user_id items)"
      by (rule arg_cong)
    then show "rec_Product_ID ` set recs = ?candidates"
      by (simp add: first image_comp comp_def)
  qed
  have third: "\<exists>recs. get_recommendations_for_user fmt user_id n data model = Inr recs"
    if "set [''Customer_ID'', ''Product_ID'', ''Category'', ''Subcategory'',
      ''Purchase_Amount''] \<subseteq> set (columns data)"
    using that by (rule get_recommendations_total)
  have fourth: "set items = Product_ID ` set (rows data)"
    if "user_id \<notin> Customer_ID ` set (rows data)"
    using that unfolding set_items_to_predict [OF assms] by auto
  from first second third fourth show ?thesis
    by blast
qed

theorem candidates_exclude_purchases_witness:
  "items_to_predict 7 example_corpus = Inr [20, 30, 40] \<and>
   fst ` set (predictions example_model 7 [20, 30, 40]) =
     Product_ID ` set (rows example_corpus) -
     Product_ID ` {r \<in> set (rows example_corpus). Customer_ID r = 7} \<and>
   set [''Customer_ID'', ''Product_ID'', ''Category'', ''Subcategory'', ''Purchase_Amount'']
     \<subseteq> set (columns example_corpus) \<and>
   int (length [20 :: int, 30, 40]) \<le> 5 \<and>
   (\<exists>recs. get_recommendations_for_user example_formatter 7 5 example_corpus example_model =
        Inr recs \<and>
      map (\<lambda>r. (rec_Product_ID r, Estimated_Rating r)) recs = [(20, 3), (40, 3), (30, 2)] \<and>
      map (\<lambda>r. (rec_Product_ID r, Estimated_Rating r)) recs =
        slice_to 5 (sorted_reverse snd (predictions example_model 7 [20, 30, 40])) \<and>
      (\<forall>r \<in> set recs. rec_Product_ID r \<in> set [20, 30, 40] \<and>
         rec_Product_ID r \<notin> Product_ID ` {r \<in> set (rows example_corpus). Customer_ID r = 7}) \<and>
      rec_Product_ID ` set recs =
        Product_ID ` set (rows example_corpus) -
        Product_ID ` {r \<in> set (rows example_corpus). Customer_ID r = 7}) \<and>
   items_to_predict 99 example_corpus = Inr [10, 20, 30, 40] \<and>
   99 \<notin> Customer_ID ` set (rows example_corpus) \<and>
   set [10, 20, 30, 40] = Product_ID ` set (rows example_corpus)"
proof -
  have items: "items_to_predict 7 example_corpus = Inr [20, 30, 40]"
    by code_simp
  have items': "items_to_predict 99 example_corpus = Inr [10, 20, 30, 40]"
    by code_simp
  have cols: "set [''Customer_ID'', ''Product_ID'', ''Category'', ''Subcategory'',
      ''Purchase_Amount''] \<subseteq> set (columns example_corpus)"
    by (simp add: example_corpus_def)
  have enough: "int (length [20 :: int, 30, 40]) \<le> 5"
    by simp
  have absent: "99 \<notin> Customer_ID ` set (rows example_corpus)"
    by (simp add: example_corpus_def purchase_row_def)
  note known = candidates_exclude_purchases [OF items, where model = example_model
      and fmt = example_formatter and n = 5]
  note unknown = candidates_exclude_purchases [OF items', where model = example_model
      and fmt = example_formatter and n = 5]
  from known [THEN conjunct2, THEN conjunct2, THEN conjunct1, THEN mp, OF cols]
  obtain recs where
    run: "get_recommendations_for_user example_formatter 7 5 example_corpus example_model = Inr recs"
    by (rule exE)
  have "map (\<lambda>r. (rec_Product_ID r, Estimated_Rating r))
      (projr (get_recommendations_for_user example_formatter 7 5 example_corpus example_model)) =
      [(20, 3), (40, 3), (30, 2)]"
    by code_simp
  then have pairs: "map (\<lambda>r. (rec_Product_ID r, Estimated_Rating r)) recs =
      [(20, 3), (40, 3), (30, 2)]"
    by (simp only: run sum.sel)
  note returned = known [where recs = recs, THEN conjunct2, THEN conjunct1, THEN mp, OF run]
  have "\<exists>recs.
      get_recommendations_for_user example_formatter 7 5 example_corpus example_model = Inr recs \<and>
      map (\<lambda>r. (rec_Product_ID r, Estimated_Rating r)) recs = [(20, 3), (40, 3), (30, 2)] \<and>
      map (\<lambda>r. (rec_Product_ID r, Estimated_Rating r)) recs =
        slice_to 5 (sorted_reverse snd (predictions example_model 7 [20, 30, 40])) \<and>
      (\<forall>r \<in> set recs. rec_Product_ID r \<in> set [20, 30, 40] \<and>
         rec_Product_ID r \<notin> Product_ID ` {r \<in> set (rows example_corpus). Customer_ID r = 7}) \<and>
      rec_Product_ID ` set recs =
        Product_ID ` set (rows example_corpus) -
        Product_ID ` {r \<in> set (rows example_corpus). Customer_ID r = 7}"
    by (rule exI [where x = recs])
      (rule conjI [OF run conjI [OF pairs conjI [OF returned [THEN conjunct1]
        conjI [OF returned [THEN conjunct2, THEN conjunct1]
          returned [THEN conjunct2, THEN conjunct2, THEN mp, OF enough]]]]])
  then show ?thesis
    by (rule conjI [OF items conjI [OF known [THEN conjunct1] conjI [OF cols conjI [OF enough
      conjI [OF _ conjI [OF items' conjI [OF absent
        unknown [THEN conjunct2, THEN conjunct2, THEN conjunct2, THEN mp, OF absent]]]]]]]])
qed

text \<open>
  Claim C5. For a count \<open>n\<close>, a number that is not negative, the returned list has
  \<open>min n c\<close> entries, where \<open>c\<close> is the number of distinct products of the corpus that the
  customer has not bought: with fewer candidates than \<open>n\<close> all of them are returned and
  nothing is added. On a corpus with the five columns that the generator reads a list is
  returned, so that too few candidates raise no error.
\<close>

theorem recommendations_length:
  assumes "0 \<le> n"
  shows "(get_recommendations_for_user fmt user_id n data model = Inr recs \<longrightarrow>
      int (length recs) =
        min n (int (card (Product_ID ` set (rows data) -
          Product_ID ` {r \<in> set (rows data). Customer_ID r = user_id})))) \<and>
    (set [''Customer_ID'', ''Product_ID'', ''Category'', ''Subcategory'', ''Purchase_Amount'']
        \<subseteq> set (columns data) \<longrightarrow>
      (\<exists>recs. get_recommendations_for_user fmt user_id n data model = Inr recs))"
proof (intro conjI impI)
  assume run: "get_recommendations_for_user fmt user_id n data model = Inr recs"
  then obtain items where items: "items_to_predict user_id data = Inr items"
    by (elim get_recommendations_Inr)
  have "int (length recs) = int (length (slice_to n items))"
    by (simp only: length_recommendations [OF run items])
  also have "\<dots> = min n (int (length items))"
    by (rule length_slice_to [OF assms])
  finally show "int (length recs) =
      min n (int (card (Product_ID ` set (rows data) -
        Product_ID ` {r \<in> set (rows data). Customer_ID r = user_id})))"
    by (simp only: card_items_to_predict [OF items])
next
  assume "set [''Customer_ID'', ''Product_ID'', ''Category'', ''Subcategory'',
    ''Purchase_Amount''] \<subseteq> set (columns data)"
  then show "\<exists>recs. get_recommendations_for_user fmt user_id n data model = Inr recs"
    by (rule get_recommendations_total)
qed

theorem recommendations_length_witness:
  "(0::int) \<le> 5 \<and>
   set [''Customer_ID'', ''Product_ID'', ''Category'', ''Subcategory'', ''Purchase_Amount'']
     \<subseteq> set (columns example_corpus) \<and>
   (\<exists>recs. get_recommendations_for_user example_formatter 7 5 example_corpus example_model =
       Inr recs \<and>
     int (length recs) =
       min 5 (int (card (Product_ID ` set (rows example_corpus) -
         Product_ID ` {r \<in> set (rows example_corpus). Customer_ID r = 7}))) \<and>
     length recs = 3)"
proof -
  have n: "(0::int) \<le> 5"
    by simp
  have cols: "set [''Customer_ID'', ''Product_ID'', ''Category'', ''Subcategory'',
      ''Purchase_Amount''] \<subseteq> set (columns example_corpus)"
    by (simp add: example_corpus_def)
  note length = recommendations_length [OF n, of example_formatter 7 example_corpus example_model]
  from length [THEN conjunct2, THEN mp, OF cols] obtain recs where
    run: "get_recommendations_for_user example_formatter 7 5 example_corpus example_model = Inr recs"
    by (rule exE)
  have "length (projr (get_recommendations_for_user example_formatter 7 5 example_corpus
      example_model)) = 3"
    by code_simp
  then have three: "length recs = 3"
    by (simp only: run sum.sel)
  show ?thesis
    by (rule conjI [OF n conjI [OF cols exI [where x = recs]]])
      (rule conjI [OF run conjI [OF length [THEN conjunct1, THEN mp, OF run] three]])
qed




text \<open>
  Claim C2. The reason of a returned recommendation is the sentence
  \<^verbatim>\<open>Recommended because ... .\<close> around its clauses joined by \<^verbatim>\<open>; \<close>, in this order: the
  interest clause, present exactly when the customer has a row in the category of the
  recommendation; the subcategory clause, present exactly when the customer has a row in
  that category and subcategory; the popularity clause, always, with the sum of the
  amounts of all rows of that category and subcategory; the rating clause, always.
\<close>

theorem reason_clauses:
  assumes "get_recommendations_for_user fmt user_id n data model = Inr recs"
    and "r \<in> set recs"
  shows "Reason r = ''Recommended because '' @ join ''; ''
    ((if \<exists>x \<in> set (rows data). Customer_ID x = user_id \<and> Category x = rec_Category r
      then [''the customer has shown a strong interest in '' @ rec_Category r
              @ '' items previously'']
      else []) @
     (if \<exists>x \<in> set (rows data). Customer_ID x = user_id \<and> Category x = rec_Category r \<and>
           Subcategory x = rec_Subcategory r
      then [''specifically within the '' @ rec_Subcategory r @ '' subcategory'']
      else []) @
     [''this product is highly popular among other customers with total revenue of $'' @
        fmt_money fmt (sum_list (map Purchase_Amount
          (filter (\<lambda>x. Category x = rec_Category r \<and> Subcategory x = rec_Subcategory r)
             (rows data)))),
      ''the predicted rating for this product is '' @ fmt_rating fmt (Estimated_Rating r) @
        '', indicating high satisfaction potential'']) @ ''.''"
proof -
  from assms(1) obtain pre where recs: "add_reasons fmt user_id data pre = Inr recs"
    by (elim get_recommendations_Inr)
  from add_reasons_member [OF recs assms(2)] obtain r0 where
    r0: "add_reason fmt user_id data r0 = Inr r"
    by blast
  then obtain parts where parts: "reason_parts fmt user_id data r0 = Inr parts"
    and r: "r = r0\<lparr>Reason := ''Recommended because '' @ join ''; '' parts @ ''.''\<rparr>"
    unfolding add_reason_def or_raise_Inr by blast
  from r have fields: "rec_Category r0 = rec_Category r" "rec_Subcategory r0 = rec_Subcategory r"
    "Estimated_Rating r0 = Estimated_Rating r"
    by simp_all
  from r have reason: "Reason r = ''Recommended because '' @ join ''; '' parts @ ''.''"
    by simp
  have "Inr parts = reason_parts fmt user_id data r0"
    by (simp only: parts)
  also note reason_parts_value [OF reason_parts_columns [OF parts], of fmt user_id r0]
  finally show ?thesis
    unfolding reason fields by (simp only: sum.inject)
qed

theorem reason_clauses_witness:
  "(\<exists>recs r.
     get_recommendations_for_user example_formatter 7 2 example_corpus example_model = Inr recs \<and>
     r \<in> set recs \<and>
     (rec_Product_ID r, rec_Category r, rec_Subcategory r) = (20, ''Electronics'', ''Headphones'') \<and>
     Reason r = ''Recommended because the customer has shown a strong interest in Electronics items previously; this product is highly popular among other customers with total revenue of $<amount>; the predicted rating for this product is <rating>, indicating high satisfaction potential.'' \<and>
     Reason r = ''Recommended because '' @ join ''; ''
       ((if \<exists>x \<in> set (rows example_corpus). Customer_ID x = 7 \<and> Category x = rec_Category r
         then [''the customer has shown a strong interest in '' @ rec_Category r
                 @ '' items previously'']
         else []) @
        (if \<exists>x \<in> set (rows example_corpus). Customer_ID x = 7 \<and> Category x = rec_Category r \<and>
              Subcategory x = rec_Subcategory r
         then [''specifically within the '' @ rec_Subcategory r @ '' subcategory'']
         else []) @
        [''this product is highly popular among other customers with total revenue of $'' @
           fmt_money example_formatter (sum_list (map Purchase_Amount
             (filter (\<lambda>x. Category x = rec_Category r \<and> Subcategory x = rec_Subcategory r)
                (rows example_corpus)))),
         ''the predicted rating for this product is '' @
           fmt_rating example_formatter (Estimated_Rating r) @
           '', indicating high satisfaction potential'']) @ ''.'') \<and>
   (\<exists>recs.
     get_recommendations_for_user example_formatter 1 2 returning_corpus example_model = Inr recs \<and>
     map (\<lambda>r. (rec_Product_ID r, Reason r)) recs =
       [(11, ''Recommended because the customer has shown a strong interest in Electronics items previously; specifically within the Headphones subcategory; this product is highly popular among other customers with total revenue of $<amount>; the predicted rating for this product is <rating>, indicating high satisfaction potential.''),
        (12, ''Recommended because this product is highly popular among other customers with total revenue of $<amount>; the predicted rating for this product is <rating>, indicating high satisfaction potential.'')])"
proof -
  define recs where
    "recs = projr (get_recommendations_for_user example_formatter 7 2 example_corpus example_model)"
  define r where "r = hd recs"
  have run: "get_recommendations_for_user example_formatter 7 2 example_corpus example_model = Inr recs"
    unfolding recs_def by code_simp
  have mem: "r \<in> set recs"
    unfolding r_def recs_def by code_simp
  have product: "(rec_Product_ID r, rec_Category r, rec_Subcategory r) =
      (20, ''Electronics'', ''Headphones'')"
    unfolding r_def recs_def by code_simp
  have wording: "Reason r = ''Recommended because the customer has shown a strong interest in Electronics items previously; this product is highly popular among other customers with total revenue of $<amount>; the predicted rating for this product is <rating>, indicating high satisfaction potential.''"
    unfolding r_def recs_def by code_simp
  define recs' where
    "recs' = projr (get_recommendations_for_user example_formatter 1 2 returning_corpus
       example_model)"
  have run': "get_recommendations_for_user example_formatter 1 2 returning_corpus example_model =
      Inr recs'"
    unfolding recs'_def by code_simp
  have wording': "map (\<lambda>r. (rec_Product_ID r, Reason r)) recs' =
       [(11, ''Recommended because the customer has shown a strong interest in Electronics items previously; specifically within the Headphones subcategory; this product is highly popular among other customers with total revenue of $<amount>; the predicted rating for this product is <rating>, indicating high satisfaction potential.''),
        (12, ''Recommended because this product is highly popular among other customers with total revenue of $<amount>; the predicted rating for this product is <rating>, indicating high satisfaction potential.'')]"
    unfolding recs'_def by code_simp
  show ?thesis
  proof (rule conjI)
    show "\<exists>recs. get_recommendations_for_user example_formatter 1 2 returning_corpus
        example_model = Inr recs \<and>
      map (\<lambda>r. (rec_Product_ID r, Reason r)) recs =
       [(11, ''Recommended because the customer has shown a strong interest in Electronics items previously; specifically within the Headphones subcategory; this product is highly popular among other customers with total revenue of $<amount>; the predicted rating for this product is <rating>, indicating high satisfaction potential.''),
        (12, ''Recommended because this product is highly popular among other customers with total revenue of $<amount>; the predicted rating for this product is <rating>, indicating high satisfaction potential.'')]"
      by (rule exI [where x = recs']) (rule conjI [OF run' wording'])
  qed (rule exI [where x = recs], rule exI [where x = r],
      rule conjI [OF run conjI [OF mem conjI [OF product conjI [OF wording
        reason_clauses [OF run mem]]]]])
qed

section \<open>Properties of the model trainer\<close>

text \<open>
  Claim C6. The triples built from the corpus, one for each row and in the order of the
  rows, carry the rating \<open>ln (1 + amount)\<close>; for amounts above \<open>-1\<close>, \<open>exp rating - 1\<close>
  gives the amount back; and these triples are the data set on which the trainer starts
  its grid search when a persisted file is absent. Amounts are reals here, so the round
  trip is exact where the floating-point one holds up to rounding.
\<close>

theorem rating_scale_round_trip:
  assumes "scale_purchases data = Inr data'"
    and "load_from_df data' = Inr data_surprise"
    and "\<forall>r \<in> set (rows data). - 1 < Purchase_Amount r"
  shows "raw_ratings data_surprise =
      map (\<lambda>r. (Customer_ID r, Product_ID r, ln (1 + Purchase_Amount r))) (rows data) \<and>
    map (\<lambda>(customer, product, scaled). (customer, product, exp scaled - 1))
      (raw_ratings data_surprise) =
      map (\<lambda>r. (Customer_ID r, Product_ID r, Purchase_Amount r)) (rows data) \<and>
    (model_pkl w = None \<or> best_params_pkl w = None \<longrightarrow>
      grid_searches (snd (snd (train_and_save_model lib w data))) =
        grid_searches w @ [data_surprise])"
proof -
  from assms(1) have data': "data' =
      setitem_scaled data (map log1p (map Purchase_Amount (rows data)))"
    by (simp only: scale_purchases_Inr)
  have triples: "raw_ratings data_surprise =
      map (\<lambda>r. (Customer_ID r, Product_ID r, ln (1 + Purchase_Amount r))) (rows data)"
    unfolding load_from_df_Inr [OF assms(2)] data' rows_scaled
    by (simp add: comp_def log1p_def)
  have "map (\<lambda>(customer, product, scaled). (customer, product, exp scaled - 1))
      (raw_ratings data_surprise) =
      map (\<lambda>r. (Customer_ID r, Product_ID r, exp (ln (1 + Purchase_Amount r)) - 1)) (rows data)"
    unfolding triples by (simp add: comp_def)
  also have "\<dots> = map (\<lambda>r. (Customer_ID r, Product_ID r, Purchase_Amount r)) (rows data)"
  proof (intro map_cong refl)
    fix r assume "r \<in> set (rows data)"
    with assms(3) have "0 < 1 + Purchase_Amount r"
      by fastforce
    then show "(Customer_ID r, Product_ID r, exp (ln (1 + Purchase_Amount r)) - 1) =
        (Customer_ID r, Product_ID r, Purchase_Amount r)"
      by simp
  qed
  finally have round_trip:
    "map (\<lambda>(customer, product, scaled). (customer, product, exp scaled - 1))
      (raw_ratings data_surprise) =
      map (\<lambda>r. (Customer_ID r, Product_ID r, Purchase_Amount r)) (rows data)" .
  have "grid_searches (snd (snd (train_and_save_model lib w data))) =
      grid_searches w @ [data_surprise]"
    if "model_pkl w = None \<or> best_params_pkl w = None"
    by (simp add: train_and_save_model_new [OF assms(1,2) that] grid_searches_train_new)
  with triples round_trip show ?thesis
    by blast
qed

theorem rating_scale_round_trip_witness:
  "\<exists>data' data_surprise.
     scale_purchases example_corpus = Inr data' \<and>
     load_from_df data' = Inr data_surprise \<and>
     (\<forall>r \<in> set (rows example_corpus). - 1 < Purchase_Amount r) \<and>
     (model_pkl fresh_world = None \<or> best_params_pkl fresh_world = None) \<and>
     raw_ratings data_surprise =
       [(7, 10, ln 101), (8, 20, ln 51), (8, 30, ln 21), (9, 10, ln 121), (8, 40, ln 6)] \<and>
     map (\<lambda>(customer, product, scaled). (customer, product, exp scaled - 1))
       (raw_ratings data_surprise) =
       [(7, 10, 100), (8, 20, 50), (8, 30, 20), (9, 10, 120), (8, 40, 5)] \<and>
     grid_searches (snd (snd (train_and_save_model example_surprise fresh_world example_corpus))) =
       grid_searches fresh_world @ [data_surprise]"
proof -
  define data' where
    "data' = setitem_scaled example_corpus (map log1p (map Purchase_Amount (rows example_corpus)))"
  have scaled: "scale_purchases example_corpus = Inr data'"
    unfolding scale_purchases_Inr data'_def by (simp add: example_corpus_def)
  have "set [''Customer_ID'', ''Product_ID'', ''Purchase_Amount_Scaled''] \<subseteq> set (columns data')"
    unfolding data'_def columns_scaled by (simp add: example_corpus_def)
  from load_from_df_total [OF this] obtain data_surprise where
    loaded: "load_from_df data' = Inr data_surprise"
    by blast
  have amounts: "\<forall>r \<in> set (rows example_corpus). - 1 < Purchase_Amount r"
    by (simp add: example_corpus_def purchase_row_def)
  have fresh: "model_pkl fresh_world = None \<or> best_params_pkl fresh_world = None"
    by (simp add: fresh_world_def)
  note round_trip =
    rating_scale_round_trip [OF scaled loaded amounts,
      where w = fresh_world and lib = example_surprise]
  from round_trip [THEN conjunct1] have triples: "raw_ratings data_surprise =
      [(7, 10, ln 101), (8, 20, ln 51), (8, 30, ln 21), (9, 10, ln 121), (8, 40, ln 6)]"
    by (simp add: example_corpus_def purchase_row_def)
  from round_trip [THEN conjunct2, THEN conjunct1]
  have recovered: "map (\<lambda>(customer, product, scaled). (customer, product, exp scaled - 1))
      (raw_ratings data_surprise) =
      [(7, 10, 100), (8, 20, 50), (8, 30, 20), (9, 10, 120), (8, 40, 5)]"
    by (simp add: example_corpus_def purchase_row_def)
  show ?thesis
    by (rule exI [where x = data'], rule exI [where x = data_surprise])
      (rule conjI [OF scaled conjI [OF loaded conjI [OF amounts conjI [OF fresh
        conjI [OF triples conjI [OF recovered
          round_trip [THEN conjunct2, THEN conjunct2, THEN mp, OF fresh]]]]]]])
qed

text \<open>
  Claim C8. When the corpus lacks the customer, the product or the amount column,
  \<open>train_and_save_model\<close> raises \<open>KeyError\<close> for a missing column (the exception of the
  column lookup), and nothing has been trained or written: no grid search has been
  started and the two files are as before, whatever they held.
\<close>

theorem missing_column_raises_before_training:
  assumes "missing [''Customer_ID'', ''Product_ID'', ''Purchase_Amount''] data \<noteq> []"
  shows "(\<exists>c \<in> set (missing [''Customer_ID'', ''Product_ID'', ''Purchase_Amount''] data).
      fst (train_and_save_model lib w data) = Inl (KeyError (Name c))) \<and>
    snd (snd (train_and_save_model lib w data)) = w"
  using train_and_save_model_missing [OF assms, of lib w] by auto

theorem missing_column_raises_before_training_witness:
  "missing [''Customer_ID'', ''Product_ID'', ''Purchase_Amount''] anonymous_corpus =
     [''Customer_ID''] \<and>
   missing [''Customer_ID'', ''Product_ID'', ''Purchase_Amount''] anonymous_corpus \<noteq> [] \<and>
   fst (train_and_save_model example_surprise fresh_world anonymous_corpus) =
     Inl (KeyError (Name ''Customer_ID'')) \<and>
   (\<exists>c \<in> set (missing [''Customer_ID'', ''Product_ID'', ''Purchase_Amount''] anonymous_corpus).
      fst (train_and_save_model example_surprise fresh_world anonymous_corpus) =
        Inl (KeyError (Name c))) \<and>
   snd (snd (train_and_save_model example_surprise fresh_world anonymous_corpus)) = fresh_world"
proof -
  have absent: "missing [''Customer_ID'', ''Product_ID'', ''Purchase_Amount''] anonymous_corpus =
      [''Customer_ID'']"
    by (simp add: missing_def anonymous_corpus_def)
  then have some: "missing [''Customer_ID'', ''Product_ID'', ''Purchase_Amount''] anonymous_corpus
      \<noteq> []"
    by simp
  note raised = missing_column_raises_before_training [OF some,
      where lib = example_surprise and w = fresh_world]
  from raised [THEN conjunct1] have customer:
    "fst (train_and_save_model example_surprise fresh_world anonymous_corpus) =
       Inl (KeyError (Name ''Customer_ID''))"
    unfolding absent by simp
  show ?thesis
    by (rule conjI [OF absent conjI [OF some conjI [OF customer raised]]])
qed

text \<open>
  Claim C3. For a corpus with the customer, product and amount columns: when both files
  exist, the stored model is returned, no grid search is started and the files stay as
  they are, so that a second call, on any corpus with these columns, returns the same
  model; and when a file is absent a grid search is started and the result is that of the
  training. The columns are looked up before the files (claim C8); apart from that the
  stored model is returned whatever the corpus holds.
\<close>

theorem cached_model_is_returned:
  assumes "missing [''Customer_ID'', ''Product_ID'', ''Purchase_Amount''] data = []"
    and "missing [''Customer_ID'', ''Product_ID'', ''Purchase_Amount''] data2 = []"
  shows "(model_pkl w = Some model \<and> best_params_pkl w = Some best_params \<longrightarrow>
      fst (train_and_save_model lib w data) = Inr model \<and>
      snd (snd (train_and_save_model lib w data)) = w \<and>
      fst (train_and_save_model lib (snd (snd (train_and_save_model lib w data))) data2) =
        Inr model) \<and>
    (model_pkl w = None \<or> best_params_pkl w = None \<longrightarrow>
      (\<exists>data_surprise.
         grid_searches (snd (snd (train_and_save_model lib w data))) =
           grid_searches w @ [data_surprise] \<and>
         fst (train_and_save_model lib w data) = fst (train_new lib w data_surprise)))"
proof (rule conjI; rule impI)
  assume files: "model_pkl w = Some model \<and> best_params_pkl w = Some best_params"
  from corpus_prepared [OF assms(1)] obtain data' data_surprise where
    "scale_purchases data = Inr data'" "load_from_df data' = Inr data_surprise"
    by blast
  with files have first: "train_and_save_model lib w data = (Inr model, data', w)"
    by (intro train_and_save_model_cached) simp_all
  from corpus_prepared [OF assms(2)] obtain data2' data_surprise2 where
    "scale_purchases data2 = Inr data2'" "load_from_df data2' = Inr data_surprise2"
    by blast
  with files have second: "train_and_save_model lib w data2 = (Inr model, data2', w)"
    by (intro train_and_save_model_cached) simp_all
  from first second
  show "fst (train_and_save_model lib w data) = Inr model \<and>
      snd (snd (train_and_save_model lib w data)) = w \<and>
      fst (train_and_save_model lib (snd (snd (train_and_save_model lib w data))) data2) =
        Inr model"
    by simp
next
  assume absent: "model_pkl w = None \<or> best_params_pkl w = None"
  from corpus_prepared [OF assms(1)] obtain data' data_surprise where
    steps: "scale_purchases data = Inr data'" "load_from_df data' = Inr data_surprise"
    by blast
  have "grid_searches (snd (snd (train_and_save_model lib w data))) =
      grid_searches w @ [data_surprise] \<and>
    fst (train_and_save_model lib w data) = fst (train_new lib w data_surprise)"
    by (simp add: train_and_save_model_new [OF steps absent] grid_searches_train_new)
  then show "\<exists>data_surprise.
      grid_searches (snd (snd (train_and_save_model lib w data))) =
        grid_searches w @ [data_surprise] \<and>
      fst (train_and_save_model lib w data) = fst (train_new lib w data_surprise)"
    by (rule exI)
qed

theorem cached_model_is_returned_witness:
  "missing [''Customer_ID'', ''Product_ID'', ''Purchase_Amount''] example_corpus = [] \<and>
   missing [''Customer_ID'', ''Product_ID'', ''Purchase_Amount''] relabelled_corpus = [] \<and>
   model_pkl cached_world = Some example_model \<and> best_params_pkl cached_world = Some 20 \<and>
   fst (train_and_save_model example_surprise cached_world example_corpus) = Inr example_model \<and>
   snd (snd (train_and_save_model example_surprise cached_world example_corpus)) = cached_world \<and>
   fst (train_and_save_model example_surprise
     (snd (snd (train_and_save_model example_surprise cached_world example_corpus)))
     relabelled_corpus) = Inr example_model \<and>
   (model_pkl fresh_world = None \<or> best_params_pkl fresh_world = None) \<and>
   (\<exists>data_surprise.
      grid_searches (snd (snd (train_and_save_model example_surprise fresh_world example_corpus))) =
        grid_searches fresh_world @ [data_surprise] \<and>
      fst (train_and_save_model example_surprise fresh_world example_corpus) =
        fst (train_new example_surprise fresh_world data_surprise))"
proof -
  have cols: "missing [''Customer_ID'', ''Product_ID'', ''Purchase_Amount''] example_corpus = []"
    by (simp add: missing_def example_corpus_def)
  have cols2: "missing [''Customer_ID'', ''Product_ID'', ''Purchase_Amount''] relabelled_corpus = []"
    by (simp add: missing_def relabelled_corpus_def)
  have files: "model_pkl cached_world = Some example_model \<and> best_params_pkl cached_world = Some 20"
    by (simp add: cached_world_def)
  have absent: "model_pkl fresh_world = None \<or> best_params_pkl fresh_world = None"
    by (simp add: fresh_world_def)
  note cached = cached_model_is_returned [OF cols cols2, where lib = example_surprise
      and w = cached_world and model = example_model and best_params = 20,
      THEN conjunct1, THEN mp, OF files]
  note fresh = cached_model_is_returned [OF cols cols2, where lib = example_surprise
      and w = fresh_world, THEN conjunct2, THEN mp, OF absent]
  show ?thesis
    by (rule conjI [OF cols conjI [OF cols2]])
      (rule conjI [OF files [THEN conjunct1] conjI [OF files [THEN conjunct2]
        conjI [OF cached [THEN conjunct1] conjI [OF cached [THEN conjunct2, THEN conjunct1]
          conjI [OF cached [THEN conjunct2, THEN conjunct2] conjI [OF absent fresh]]]]]])
qed

end
